theory Spec2Isabelle
  imports Main "HOL-Library.Sublist"
begin

section \<open>JavaScript values\<close>

text \<open>
  The values the server handles without a declared shape (\<open>any\<close>, \<open>unknown\<close>,
  \<open>Record<string, any>\<close>) and the object literals it hands to \<open>JSON.stringify\<close>.
  Numbers are the integers; an object is the list of its properties in insertion order.
\<close>

datatype jsval =
    Undefined
  | Null
  | Bool bool
  | Num int
  | Str string
  | Arr "jsval list"
  | Obj "(string \<times> jsval) list"

text \<open>Truthiness, as \<open>if (v)\<close>, \<open>!v\<close>, \<open>v || d\<close> and \<open>v ? a : b\<close> test it.\<close>

fun truthy :: "jsval \<Rightarrow> bool" where
  "truthy Undefined = False"
| "truthy Null = False"
| "truthy (Bool b) = b"
| "truthy (Num n) = (n \<noteq> 0)"
| "truthy (Str s) = (s \<noteq> [])"
| "truthy (Arr xs) = True"
| "truthy (Obj ps) = True"

text \<open>An optional property of a declared type: absent is \<open>undefined\<close>.\<close>

definition opt :: "('a \<Rightarrow> jsval) \<Rightarrow> 'a option \<Rightarrow> jsval" where
  "opt f v = (case v of None \<Rightarrow> Undefined | Some x \<Rightarrow> f x)"

text \<open>
  What \<open>JSON.stringify(v, null, 2)\<close> writes, as the JSON value the text denotes: a
  property whose value is \<open>undefined\<close> is left out, an \<open>undefined\<close> array element is
  written \<open>null\<close>. The layout of the text is not modelled.
\<close>

fun stringified :: "jsval \<Rightarrow> jsval" where
  "stringified (Arr xs) = Arr (map (\<lambda>x. if x = Undefined then Null else stringified x) xs)"
| "stringified (Obj ps) =
     Obj (map (\<lambda>p. (fst p, stringified (snd p))) (filter (\<lambda>p. snd p \<noteq> Undefined) ps))"
| "stringified v = v"

text \<open>Property lookup on a written JSON value.\<close>

fun lookup :: "jsval \<Rightarrow> string \<Rightarrow> jsval option" where
  "lookup (Obj ps) k = map_of ps k"
| "lookup v k = None"

fun keys :: "jsval \<Rightarrow> string list" where
  "keys (Obj ps) = map fst ps"
| "keys v = []"

section \<open>Upstream records (the declared interfaces)\<close>

text \<open>
  \<open>N8nWorkflow\<close>. The type is structural: an upstream object may carry properties the
  interface does not declare; they are the extension part of the record. The elements of
  \<open>tags\<close> are the tag objects as the upstream sent them: the server hands the array on
  and never reads it.
\<close>

record N8nWorkflow =
  id_w :: string
  name :: string
  active :: bool
  createdAt :: "string option"
  updatedAt :: "string option"
  tags :: "jsval list option"

record N8nWorkflowDetail = N8nWorkflow +
  nodes :: "jsval list"
  connections :: jsval
  settings :: "jsval option"
  staticData :: "jsval option"

record error_info =
  message :: string
  stack :: "string option"

record result_data =
  error :: "error_info option"

record execution_data =
  resultData :: "result_data option"

datatype execution_status = Success | Error | Waiting | Running

record N8nExecution =
  id_e :: string
  finished :: bool
  mode :: string
  retryOf :: "string option"
  retrySuccessId :: "string option"
  startedAt :: string
  stoppedAt :: "string option"
  workflowId_e :: string
  waitTill :: "string option"
  status :: "execution_status option"
  data_e :: "execution_data option"

section \<open>Errors\<close>

datatype ErrorCode = InvalidParams | MethodNotFound | InvalidRequest | InternalError

text \<open>\<open>new McpError(code, message)\<close>: the two constructor arguments.\<close>

datatype McpError = McpError ErrorCode string

text \<open>
  What a call of the HTTP client throws: an \<open>AxiosError\<close> with its optional response
  (status and body) and its message, another \<open>Error\<close> with its message, or a value that
  is not an \<open>Error\<close>, given by its \<open>String(...)\<close> text.
\<close>

datatype axios_response = Response nat jsval

datatype failure =
    AxiosError "axios_response option" string
  | OtherError string
  | OtherValue string

text \<open>
  What the body of the request handler throws into its \<open>catch\<close>: an \<open>McpError\<close>, or a
  value that is not one (an \<open>Error\<close> with its message, or a value that is not an
  \<open>Error\<close>, given by its \<open>String(...)\<close> text).
\<close>

datatype js_error = JsError string | JsValue string

datatype thrown = Mcp McpError | Other js_error

text \<open>
  \<open>handleAxiosError\<close>. \<open>JSON.stringify\<close> of the response body is a parameter
  \<open>J\<close> of the model: the text it produces is the library's business.
\<close>

definition handleAxiosError :: "(jsval \<Rightarrow> string) \<Rightarrow> failure \<Rightarrow> string \<Rightarrow> McpError" where
  "handleAxiosError J err context =
     (case err of
        AxiosError response msg \<Rightarrow>
          (let status = (case response of None \<Rightarrow> None | Some (Response st d) \<Rightarrow> Some st);
               rdata = (case response of None \<Rightarrow> Undefined | Some (Response st d) \<Rightarrow> d);
               message = (if truthy rdata then J rdata else msg)
           in if status = Some 401 \<or> status = Some 403 then
                McpError InvalidRequest
                  (''Authentication failed: '' @ message @ ''. Please check your N8N_API_KEY.'')
              else if status = Some 404 then
                McpError InvalidRequest (''Resource not found: '' @ message)
              else McpError InternalError (context @ '': '' @ message))
      | OtherError msg \<Rightarrow> McpError InternalError (context @ '': '' @ msg)
      | OtherValue txt \<Rightarrow> McpError InternalError (context @ '': '' @ txt))"

text \<open>
  A tool result: \<open>content\<close> is the JSON value written into the single text item,
  \<open>isError\<close> the optional flag.
\<close>

record ToolResult =
  content :: jsval
  isError :: "bool option"

definition text_result :: "jsval \<Rightarrow> ToolResult" where
  "text_result payload = \<lparr>content = stringified payload, isError = None\<rparr>"

text \<open>\<open>handleError\<close>, which the \<open>catch\<close> calls on what is not an \<open>McpError\<close>.\<close>

definition handleError :: "js_error \<Rightarrow> ToolResult" where
  "handleError err =
     (let errorMessage = (case err of JsError m \<Rightarrow> m | JsValue t \<Rightarrow> t)
      in \<lparr>content = stringified (Obj [(''success'', Bool False), (''error'', Str errorMessage)]),
          isError = Some True\<rparr>)"

section \<open>The upstream client\<close>

text \<open>
  One entry of the log of upstream calls: the method, the URL and what was sent with it
  (query parameters, a JSON body, or the body of the test call).
\<close>

datatype 'x call =
    GET string
  | GET_params string string int
  | POST string jsval
  | POST_test string "'x N8nWorkflow_scheme" jsval

text \<open>
  \<open>axiosInstance\<close>, one function for each instance of \<open>get<T>\<close> and \<open>post<T>\<close> the
  server uses. A call takes the state of the upstream platform and returns either the
  failure it throws or \<open>response.data.data\<close> of the declared type, with the new state.
\<close>

record ('s, 'x) axios =
  get_workflows :: "string \<Rightarrow> 's \<Rightarrow> (failure + 'x N8nWorkflow_scheme list) \<times> 's"
  get_detail :: "string \<Rightarrow> 's \<Rightarrow> (failure + N8nWorkflowDetail) \<times> 's"
  get_workflow :: "string \<Rightarrow> 's \<Rightarrow> (failure + 'x N8nWorkflow_scheme) \<times> 's"
  get_executions :: "string \<Rightarrow> string \<Rightarrow> int \<Rightarrow> 's \<Rightarrow> (failure + N8nExecution list) \<times> 's"
  post_any :: "string \<Rightarrow> jsval \<Rightarrow> 's \<Rightarrow> (failure + jsval) \<times> 's"
  post_test :: "string \<Rightarrow> 'x N8nWorkflow_scheme \<Rightarrow> jsval \<Rightarrow> 's \<Rightarrow> (failure + string) \<times> 's"

text \<open>The world a handler runs in: the upstream state and the calls issued so far.\<close>

type_synonym ('s, 'x) world = "'s \<times> 'x call list"

definition request ::
  "'x call \<Rightarrow> ('s \<Rightarrow> (failure + 'a) \<times> 's) \<Rightarrow> ('s, 'x) world \<Rightarrow> (failure + 'a) \<times> ('s, 'x) world" where
  "request c f w = (case f (fst w) of (r, s') \<Rightarrow> (r, (s', snd w @ [c])))"

section \<open>Handlers\<close>

text \<open>The object literal of the \<open>map\<close> callback in \<open>listWorkflows\<close>.\<close>

definition workflow_summary :: "'x N8nWorkflow_scheme \<Rightarrow> jsval" where
  "workflow_summary workflow =
     Obj [(''id'', Str (id_w workflow)),
          (''name'', Str (name workflow)),
          (''active'', Bool (active workflow)),
          (''createdAt'', opt Str (createdAt workflow)),
          (''updatedAt'', opt Str (updatedAt workflow)),
          (''tags'', opt Arr (tags workflow))]"

definition listWorkflows ::
  "(jsval \<Rightarrow> string) \<Rightarrow> ('s, 'x) axios \<Rightarrow> ('s, 'x) world \<Rightarrow> (thrown + ToolResult) \<times> ('s, 'x) world" where
  "listWorkflows J ax w =
     (case request (GET ''/workflows'') (get_workflows ax ''/workflows'') w of
        (Inl err, w') \<Rightarrow> (Inl (Mcp (handleAxiosError J err ''Failed to list workflows'')), w')
      | (Inr ws, w') \<Rightarrow>
          (let workflows = map workflow_summary ws
           in (Inr (text_result
                 (Obj [(''success'', Bool True),
                       (''count'', Num (int (length workflows))),
                       (''workflows'', Arr workflows)])), w')))"

definition getWorkflow ::
  "(jsval \<Rightarrow> string) \<Rightarrow> ('s, 'x) axios \<Rightarrow> string \<Rightarrow> ('s, 'x) world
     \<Rightarrow> (thrown + ToolResult) \<times> ('s, 'x) world" where
  "getWorkflow J ax workflowId w =
     (case request (GET (''/workflows/'' @ workflowId))
             (get_detail ax (''/workflows/'' @ workflowId)) w of
        (Inl err, w') \<Rightarrow>
          (Inl (Mcp (handleAxiosError J err (''Failed to get workflow '' @ workflowId))), w')
      | (Inr workflow, w') \<Rightarrow>
          (Inr (text_result
             (Obj [(''success'', Bool True),
                   (''workflow'',
                    Obj [(''id'', Str (id_w workflow)),
                         (''name'', Str (name workflow)),
                         (''active'', Bool (active workflow)),
                         (''nodes'', Arr (nodes workflow)),
                         (''connections'', connections workflow),
                         (''settings'', opt (\<lambda>v. v) (settings workflow)),
                         (''staticData'', opt (\<lambda>v. v) (staticData workflow)),
                         (''tags'', opt Arr (tags workflow)),
                         (''createdAt'', opt Str (createdAt workflow)),
                         (''updatedAt'', opt Str (updatedAt workflow))])])), w'))"

text \<open>A string in a condition: the empty string is falsy.\<close>

definition truthy_str :: "string option \<Rightarrow> bool" where
  "truthy_str v = truthy (opt Str v)"

text \<open>\<open>execution.data?.resultData?.error\<close>\<close>

definition result_error :: "N8nExecution \<Rightarrow> error_info option" where
  "result_error execution = Option.bind (Option.bind (data_e execution) resultData) error"

definition determineExecutionStatus :: "N8nExecution \<Rightarrow> execution_status" where
  "determineExecutionStatus execution =
     (if truthy_str (waitTill execution) then Waiting
      else if \<not> finished execution then Running
      else if result_error execution \<noteq> None then Error
      else if finished execution \<and> truthy_str (stoppedAt execution) then Success
      else Error)"

definition status_text :: "execution_status \<Rightarrow> string" where
  "status_text st =
     (case st of Success \<Rightarrow> ''success'' | Error \<Rightarrow> ''error''
               | Waiting \<Rightarrow> ''waiting'' | Running \<Rightarrow> ''running'')"

text \<open>\<open>execution.data?.resultData?.error?.message\<close>\<close>

definition error_message :: "N8nExecution \<Rightarrow> string option" where
  "error_message execution =
     map_option message (result_error execution)"

text \<open>The object literal of the \<open>map\<close> callback in \<open>getExecutions\<close>.\<close>

definition execution_summary :: "N8nExecution \<Rightarrow> jsval" where
  "execution_summary execution =
     Obj [(''id'', Str (id_e execution)),
          (''workflowId'', Str (workflowId_e execution)),
          (''finished'', Bool (finished execution)),
          (''mode'', Str (mode execution)),
          (''startedAt'', Str (startedAt execution)),
          (''stoppedAt'', opt Str (stoppedAt execution)),
          (''status'', Str (status_text (determineExecutionStatus execution))),
          (''error'', (if truthy_str (error_message execution)
                        then opt Str (error_message execution) else Null))]"

text \<open>
  \<open>getExecutions(workflowId, limit = 10)\<close>: the default parameter replaces an absent
  limit, \<open>limit || 10\<close> then replaces a falsy one.
\<close>

definition validLimit :: "int option \<Rightarrow> int" where
  "validLimit limit_opt =
     (let limit = (case limit_opt of None \<Rightarrow> 10 | Some n \<Rightarrow> n)
      in min (max 1 (if truthy (Num limit) then limit else 10)) 100)"

definition getExecutions ::
  "(jsval \<Rightarrow> string) \<Rightarrow> ('s, 'x) axios \<Rightarrow> string \<Rightarrow> int option \<Rightarrow> ('s, 'x) world
     \<Rightarrow> (thrown + ToolResult) \<times> ('s, 'x) world" where
  "getExecutions J ax workflowId limit_opt w =
     (case request (GET_params ''/executions'' workflowId (validLimit limit_opt))
             (get_executions ax ''/executions'' workflowId (validLimit limit_opt)) w of
        (Inl err, w') \<Rightarrow>
          (Inl (Mcp (handleAxiosError J err
                  (''Failed to get executions for workflow '' @ workflowId))), w')
      | (Inr es, w') \<Rightarrow>
          (let executions = map execution_summary es
           in (Inr (text_result
                 (Obj [(''success'', Bool True),
                       (''workflowId'', Str workflowId),
                       (''count'', Num (int (length executions))),
                       (''executions'', Arr executions)])), w')))"

text \<open>
  \<open>triggerWorkflow\<close>. The body of the test call is
  \<open>{workflowData: workflowResponse.data.data, runData: data}\<close>; both branches of the
  test on \<open>active\<close> are written out as the source has them.
\<close>

definition triggerWorkflow ::
  "(jsval \<Rightarrow> string) \<Rightarrow> ('s, 'x) axios \<Rightarrow> string \<Rightarrow> jsval \<Rightarrow> ('s, 'x) world
     \<Rightarrow> (thrown + ToolResult) \<times> ('s, 'x) world" where
  "triggerWorkflow J ax workflowId data w =
     (let context = ''Failed to trigger workflow '' @ workflowId;
          activate_url = ''/workflows/'' @ workflowId @ ''/activate'';
          activate_body = (if truthy data then data else Obj []);
          test_url = ''/workflows/'' @ workflowId @ ''/test''
      in case request (POST activate_url activate_body)
                (post_any ax activate_url activate_body) w of
           (Inl err, w1) \<Rightarrow> (Inl (Mcp (handleAxiosError J err context)), w1)
         | (Inr response, w1) \<Rightarrow>
             (case request (GET (''/workflows/'' @ workflowId))
                     (get_workflow ax (''/workflows/'' @ workflowId)) w1 of
                (Inl err, w2) \<Rightarrow> (Inl (Mcp (handleAxiosError J err context)), w2)
              | (Inr workflow, w2) \<Rightarrow>
                  (case (if active workflow
                         then request (POST_test test_url workflow data)
                                (post_test ax test_url workflow data) w2
                         else request (POST_test test_url workflow data)
                                (post_test ax test_url workflow data) w2) of
                     (Inl err, w3) \<Rightarrow> (Inl (Mcp (handleAxiosError J err context)), w3)
                   | (Inr executionId, w3) \<Rightarrow>
                       (Inr (text_result
                          (Obj [(''success'', Bool True),
                                (''message'', Str ''Workflow triggered successfully''),
                                (''workflowId'', Str workflowId),
                                (''executionId'', Str executionId),
                                (''workflowActive'', Bool (active workflow))])), w3))))"

section \<open>The request handler\<close>

text \<open>The arguments of a tool call, by the declared input schemas.\<close>

record tool_args =
  workflow_id :: "string option"
  limit_arg :: "int option"
  data_arg :: "jsval option"

text \<open>The \<open>switch\<close> inside the \<open>try\<close>.\<close>

definition dispatch ::
  "(jsval \<Rightarrow> string) \<Rightarrow> ('s, 'x) axios \<Rightarrow> string \<Rightarrow> tool_args option \<Rightarrow> ('s, 'x) world
     \<Rightarrow> (thrown + ToolResult) \<times> ('s, 'x) world" where
  "dispatch J ax tool args w =
     (let arg_workflow_id = Option.bind args workflow_id;
          required = Inl (Mcp (McpError InvalidParams ''workflow_id is required''))
      in if tool = ''list_workflows'' then listWorkflows J ax w
         else if tool = ''get_workflow'' then
           (case arg_workflow_id of
              None \<Rightarrow> (required, w)
            | Some wid \<Rightarrow>
                if \<not> truthy (Str wid) then (required, w) else getWorkflow J ax wid w)
         else if tool = ''get_executions'' then
           (case arg_workflow_id of
              None \<Rightarrow> (required, w)
            | Some wid \<Rightarrow>
                if \<not> truthy (Str wid) then (required, w)
                else getExecutions J ax wid (Option.bind args limit_arg) w)
         else if tool = ''trigger_workflow'' then
           (case arg_workflow_id of
              None \<Rightarrow> (required, w)
            | Some wid \<Rightarrow>
                if \<not> truthy (Str wid) then (required, w)
                else triggerWorkflow J ax wid (opt (\<lambda>v. v) (Option.bind args data_arg)) w)
         else (Inl (Mcp (McpError MethodNotFound (''Unknown tool: '' @ tool))), w))"

text \<open>The \<open>catch\<close>: an \<open>McpError\<close> is thrown again, anything else becomes a result.\<close>

definition catch_handler :: "thrown + ToolResult \<Rightarrow> McpError + ToolResult" where
  "catch_handler outcome =
     (case outcome of
        Inr r \<Rightarrow> Inr r
      | Inl (Mcp e) \<Rightarrow> Inl e
      | Inl (Other err) \<Rightarrow> Inr (handleError err))"

definition callTool ::
  "(jsval \<Rightarrow> string) \<Rightarrow> ('s, 'x) axios \<Rightarrow> string \<Rightarrow> tool_args option \<Rightarrow> ('s, 'x) world
     \<Rightarrow> (McpError + ToolResult) \<times> ('s, 'x) world" where
  "callTool J ax tool args w =
     (case dispatch J ax tool args w of (outcome, w') \<Rightarrow> (catch_handler outcome, w'))"

section \<open>A concrete upstream, for the examples\<close>

definition wf_orders :: N8nWorkflow where
  "wf_orders =
     \<lparr>id_w = ''1'', name = ''Orders'', active = True,
      createdAt = Some ''2024-01-01T00:00:00.000Z'', updatedAt = None,
      tags = Some [Obj [(''name'', Str ''prod''), (''id'', Str ''t1''),
                        (''createdAt'', Str ''2023-12-31T00:00:00.000Z'')]]\<rparr>"

definition wf_draft :: N8nWorkflow where
  "wf_draft =
     \<lparr>id_w = ''2'', name = ''Draft'', active = False,
      createdAt = None, updatedAt = None, tags = None\<rparr>"

definition wf_detail :: N8nWorkflowDetail where
  "wf_detail =
     \<lparr>id_w = ''1'', name = ''Orders'', active = True,
      createdAt = Some ''2024-01-01T00:00:00.000Z'', updatedAt = None, tags = None,
      nodes = [Obj [(''type'', Str ''webhook'')]], connections = Obj [],
      settings = None, staticData = None\<rparr>"

text \<open>\<open>{id: "e1", finished: false, mode: "manual", startedAt: "t0", workflowId: "1"}\<close>\<close>

definition exec_plain :: N8nExecution where
  "exec_plain =
     \<lparr>id_e = ''e1'', finished = False, mode = ''manual'', retryOf = None,
      retrySuccessId = None, startedAt = ''t0'', stoppedAt = None, workflowId_e = ''1'',
      waitTill = None, status = None, data_e = None\<rparr>"

definition failed_with :: "string \<Rightarrow> execution_data" where
  "failed_with m = \<lparr>resultData = Some \<lparr>error = Some \<lparr>message = m, stack = None\<rparr>\<rparr>\<rparr>"

text \<open>
  The upstream state counts the calls it has answered. Every call succeeds: the fetched
  workflow has the given \<open>active\<close> flag, the list of executions is the given one, the test
  call answers with an execution id of its own and the activation with another value.
\<close>

definition demo_axios :: "bool \<Rightarrow> N8nExecution list \<Rightarrow> (nat, unit) axios" where
  "demo_axios act es =
     \<lparr>get_workflows = (\<lambda>url s. (Inr [wf_orders, wf_draft], Suc s)),
      get_detail = (\<lambda>url s. (Inr wf_detail, Suc s)),
      get_workflow = (\<lambda>url s. (Inr (wf_orders\<lparr>active := act\<rparr>), Suc s)),
      get_executions = (\<lambda>url wid n s. (Inr es, Suc s)),
      post_any = (\<lambda>url body s. (Inr (Str ''activated''), Suc s)),
      post_test = (\<lambda>url wf rd s. (Inr ''exec-42'', Suc s))\<rparr>"

text \<open>An upstream whose every call fails with the same failure.\<close>

definition failing_axios :: "failure \<Rightarrow> (nat, unit) axios" where
  "failing_axios f =
     \<lparr>get_workflows = (\<lambda>url s. (Inl f, Suc s)),
      get_detail = (\<lambda>url s. (Inl f, Suc s)),
      get_workflow = (\<lambda>url s. (Inl f, Suc s)),
      get_executions = (\<lambda>url wid n s. (Inl f, Suc s)),
      post_any = (\<lambda>url body s. (Inl f, Suc s)),
      post_test = (\<lambda>url wf rd s. (Inl f, Suc s))\<rparr>"

text \<open>A stand-in for \<open>JSON.stringify\<close> in the examples: it tells the kinds of value apart.\<close>

fun demo_stringify :: "jsval \<Rightarrow> string" where
  "demo_stringify Undefined = []"
| "demo_stringify Null = ''null''"
| "demo_stringify (Bool b) = (if b then ''true'' else ''false'')"
| "demo_stringify (Num n) = ''<number>''"
| "demo_stringify (Str s) = [CHR 0x22] @ s @ [CHR 0x22]"
| "demo_stringify (Arr xs) = ''[...]''"
| "demo_stringify (Obj ps) = ''{...}''"

definition args_of :: "string \<Rightarrow> int option \<Rightarrow> tool_args option" where
  "args_of wid l = Some \<lparr>workflow_id = Some wid, limit_arg = l, data_arg = None\<rparr>"

section \<open>Reading a result\<close>

text \<open>The records of the array under property \<open>k\<close> of a returned payload.\<close>

definition returned_records :: "'e + ToolResult \<Rightarrow> string \<Rightarrow> jsval list" where
  "returned_records outcome k =
     (case outcome of
        Inl err \<Rightarrow> []
      | Inr r \<Rightarrow> (case lookup (content r) k of Some (Arr rs) \<Rightarrow> rs | _ \<Rightarrow> []))"

text \<open>
  The precedence of the status rules as the specification words it, over the outcome of
  its four tests: a wait marker, the finished flag, a nested error object, a stop time.
\<close>

definition status_precedence :: "bool \<Rightarrow> bool \<Rightarrow> bool \<Rightarrow> bool \<Rightarrow> execution_status" where
  "status_precedence has_waitTill is_finished has_error has_stoppedAt =
     (if has_waitTill then Waiting
      else if \<not> is_finished then Running
      else if has_error then Error
      else if is_finished \<and> has_stoppedAt then Success
      else Error)"

section \<open>The limit of \<open>get_executions\<close>\<close>

lemma request_calls: "snd (snd (request c f (s, cs))) = cs @ [c]"
  by (simp add: request_def split: prod.splits)

lemma getExecutions_calls:
  "snd (snd (getExecutions J ax wid l (s, cs))) =
     cs @ [GET_params ''/executions'' wid
             (min (max 1 (case l of None \<Rightarrow> 10 | Some n \<Rightarrow> if n = 0 then 10 else n)) 100)]"
  by (cases "get_executions ax ''/executions'' wid
             (min (max 1 (case l of None \<Rightarrow> 10 | Some n \<Rightarrow> if n = 0 then 10 else n)) 100) s")
     (auto simp: getExecutions_def validLimit_def request_def Let_def
           split: option.splits sum.splits prod.splits)

text \<open>
  C1, as amended. For every call of \<open>get_executions\<close> with a non-empty workflow id, exactly
  one upstream call is added, the list of executions, and its limit is
  \<open>min (max 1 l) 100\<close> where \<open>l\<close> is the given limit, or 10 when the limit is absent or 0:
  500 gives 100, an absent limit 10, 37 gives 37, a negative limit 1, and 0 gives 10.
\<close>

theorem C1_limit_sent:
  assumes "wid \<noteq> []"
  shows "snd (snd (callTool J ax ''get_executions''
            (Some \<lparr>workflow_id = Some wid, limit_arg = l, data_arg = d\<rparr>) (s, cs))) =
         cs @ [GET_params ''/executions'' wid
                 (min (max 1 (case l of None \<Rightarrow> 10 | Some n \<Rightarrow> if n = 0 then 10 else n)) 100)]"
  using assms getExecutions_calls [of J ax wid l s cs]
  by (simp add: callTool_def dispatch_def split_beta)

theorem C1_limit_sent_witness:
  "''7'' \<noteq> [] \<and>
   snd (snd (callTool demo_stringify (demo_axios True []) ''get_executions''
      (Some \<lparr>workflow_id = Some ''7'', limit_arg = Some 37, data_arg = None\<rparr>) (0, []))) =
     [GET_params ''/executions'' ''7'' 37] \<and>
   snd (snd (callTool demo_stringify (demo_axios True []) ''get_executions''
      (Some \<lparr>workflow_id = Some ''7'', limit_arg = Some 500, data_arg = None\<rparr>) (0, []))) =
     [GET_params ''/executions'' ''7'' 100] \<and>
   snd (snd (callTool demo_stringify (demo_axios True []) ''get_executions''
      (Some \<lparr>workflow_id = Some ''7'', limit_arg = None, data_arg = None\<rparr>) (0, []))) =
     [GET_params ''/executions'' ''7'' 10] \<and>
   snd (snd (callTool demo_stringify (demo_axios True []) ''get_executions''
      (Some \<lparr>workflow_id = Some ''7'', limit_arg = Some (- 5), data_arg = None\<rparr>) (0, []))) =
     [GET_params ''/executions'' ''7'' 1]"
proof -
  have ne: "''7'' \<noteq> []" by simp
  show ?thesis
    using ne
      C1_limit_sent [OF ne, of demo_stringify "demo_axios True []" "Some 37" None 0 "[]"]
      C1_limit_sent [OF ne, of demo_stringify "demo_axios True []" "Some 500" None 0 "[]"]
      C1_limit_sent [OF ne, of demo_stringify "demo_axios True []" None None 0 "[]"]
      C1_limit_sent [OF ne, of demo_stringify "demo_axios True []" "Some (- 5)" None 0 "[]"]
    by simp
qed

text \<open>
  C1 as stated fails at \<open>limit = 0\<close>: \<open>limit || 10\<close> takes 0 for a missing limit, so
  the upstream call carries 10, not \<open>min (max 1 0) 100 = 1\<close>.
\<close>

theorem C1_limit_zero_counterexample:
  "snd (snd (callTool demo_stringify (demo_axios True []) ''get_executions''
      (Some \<lparr>workflow_id = Some ''7'', limit_arg = Some 0, data_arg = None\<rparr>) (0, []))) =
     [GET_params ''/executions'' ''7'' 10] \<and>
   snd (snd (callTool demo_stringify (demo_axios True []) ''get_executions''
      (Some \<lparr>workflow_id = Some ''7'', limit_arg = Some 0, data_arg = None\<rparr>) (0, []))) \<noteq>
     [GET_params ''/executions'' ''7'' (min (max 1 0) 100)]"
  by (simp add: callTool_def dispatch_def getExecutions_def validLimit_def request_def
        demo_axios_def)

section \<open>The status of an execution\<close>

lemma truthy_str_iff: "truthy_str v \<longleftrightarrow> v \<noteq> None \<and> v \<noteq> Some []"
  by (cases v) (simp_all add: truthy_str_def opt_def)

text \<open>
  C2, as amended. The derived status is a function of \<open>waitTill\<close>, \<open>finished\<close>, the nested
  \<open>resultData.error\<close> and \<open>stoppedAt\<close> alone, by first match: a \<open>waitTill\<close> that is
  present and not the empty string gives waiting; else \<open>finished\<close> false gives running;
  else a nested error object gives error; else \<open>finished\<close> true with a \<open>stoppedAt\<close> that
  is present and not the empty string gives success; else error.
\<close>

theorem C2_status_precedence:
  "determineExecutionStatus e =
     status_precedence (waitTill e \<noteq> None \<and> waitTill e \<noteq> Some []) (finished e)
       (result_error e \<noteq> None) (stoppedAt e \<noteq> None \<and> stoppedAt e \<noteq> Some [])"
  by (simp add: determineExecutionStatus_def status_precedence_def truthy_str_iff)

text \<open>The examples of the specification, by the theorem.\<close>

theorem C2_status_examples:
  "determineExecutionStatus (exec_plain\<lparr>waitTill := Some ''t''\<rparr>) = Waiting \<and>
   determineExecutionStatus (exec_plain\<lparr>waitTill := Some ''t'', finished := True,
      stoppedAt := Some ''t''\<rparr>) = Waiting \<and>
   determineExecutionStatus exec_plain = Running \<and>
   determineExecutionStatus (exec_plain\<lparr>finished := True, stoppedAt := Some ''t'',
      data_e := Some (failed_with ''boom'')\<rparr>) = Error \<and>
   determineExecutionStatus (exec_plain\<lparr>finished := True, stoppedAt := Some ''t''\<rparr>) = Success \<and>
   determineExecutionStatus (exec_plain\<lparr>finished := True\<rparr>) = Error"
  using C2_status_precedence [of "exec_plain\<lparr>waitTill := Some ''t''\<rparr>"]
    C2_status_precedence [of "exec_plain\<lparr>waitTill := Some ''t'', finished := True,
      stoppedAt := Some ''t''\<rparr>"]
    C2_status_precedence [of exec_plain]
    C2_status_precedence [of "exec_plain\<lparr>finished := True, stoppedAt := Some ''t'',
      data_e := Some (failed_with ''boom'')\<rparr>"]
    C2_status_precedence [of "exec_plain\<lparr>finished := True, stoppedAt := Some ''t''\<rparr>"]
    C2_status_precedence [of "exec_plain\<lparr>finished := True\<rparr>"]
  by (simp add: status_precedence_def exec_plain_def failed_with_def result_error_def)

text \<open>
  C2 as stated, with "present" for the tests on \<open>waitTill\<close> and \<open>stoppedAt\<close>, fails on a
  record whose \<open>waitTill\<close> is the empty string: \<open>if (execution.waitTill)\<close> is false
  there, and the unfinished record is running, not waiting.
\<close>

theorem C2_empty_waitTill_counterexample:
  "determineExecutionStatus (exec_plain\<lparr>waitTill := Some ''''\<rparr>) = Running \<and>
   determineExecutionStatus (exec_plain\<lparr>waitTill := Some ''''\<rparr>) \<noteq>
     status_precedence (waitTill (exec_plain\<lparr>waitTill := Some ''''\<rparr>) \<noteq> None)
       (finished (exec_plain\<lparr>waitTill := Some ''''\<rparr>))
       (result_error (exec_plain\<lparr>waitTill := Some ''''\<rparr>) \<noteq> None)
       (stoppedAt (exec_plain\<lparr>waitTill := Some ''''\<rparr>) \<noteq> None)"
  by (simp add: determineExecutionStatus_def status_precedence_def truthy_str_def opt_def
        exec_plain_def result_error_def)

section \<open>The records of \<open>get_executions\<close>\<close>

lemma stringified_summaries:
  assumes "\<And>x. f x \<noteq> Undefined"
  shows "stringified (Arr (map f xs)) = Arr (map (\<lambda>x. stringified (f x)) xs)"
  using assms by simp

lemma execution_summary_written:
  "stringified (execution_summary e) =
     Obj ([(''id'', Str (id_e e)), (''workflowId'', Str (workflowId_e e)),
           (''finished'', Bool (finished e)), (''mode'', Str (mode e)),
           (''startedAt'', Str (startedAt e))] @
          (case stoppedAt e of None \<Rightarrow> [] | Some t \<Rightarrow> [(''stoppedAt'', Str t)]) @
          [(''status'', Str (status_text (determineExecutionStatus e))),
           (''error'', (case error_message e of None \<Rightarrow> Null
                        | Some m \<Rightarrow> if m = [] then Null else Str m))])"
  by (cases "stoppedAt e"; cases "error_message e")
     (simp_all add: execution_summary_def opt_def truthy_str_def)

lemma getExecutions_records:
  assumes "get_executions ax ''/executions'' wid (validLimit l) s = (Inr es, s')"
  shows "returned_records (fst (getExecutions J ax wid l (s, cs))) ''executions'' =
           map (\<lambda>e. stringified (execution_summary e)) es"
proof -
  have "execution_summary e \<noteq> Undefined" for e
    by (simp add: execution_summary_def)
  then have "stringified (Arr (map execution_summary es)) =
      Arr (map (\<lambda>e. stringified (execution_summary e)) es)"
    by (rule stringified_summaries)
  then show ?thesis
    using assms
    by (simp add: getExecutions_def request_def returned_records_def text_result_def)
qed


text \<open>
  C9, as amended. For every execution record returned by \<open>get_executions\<close>, the error
  field is the nested \<open>resultData.error.message\<close> when that message is present and not
  empty, and null otherwise; and a finished record without a (non-empty) \<open>waitTill\<close> whose
  \<open>resultData.error\<close> object exists with an empty message gets status "error" and error
  null.
\<close>

theorem C9_error_field:
  assumes "get_executions ax ''/executions'' wid (validLimit l) s = (Inr es, s')"
  shows "map (\<lambda>r. lookup r ''error'')
           (returned_records (fst (getExecutions J ax wid l (s, cs))) ''executions'') =
         map (\<lambda>e. Some (case error_message e of None \<Rightarrow> Null
                          | Some m \<Rightarrow> if m = [] then Null else Str m)) es \<and>
         (\<forall>i < length es.
            finished (es ! i) \<and> \<not> truthy_str (waitTill (es ! i)) \<and>
            (\<exists>er. result_error (es ! i) = Some er \<and> message er = []) \<longrightarrow>
            lookup (returned_records (fst (getExecutions J ax wid l (s, cs))) ''executions'' ! i)
              ''status'' = Some (Str ''error'') \<and>
            lookup (returned_records (fst (getExecutions J ax wid l (s, cs))) ''executions'' ! i)
              ''error'' = Some Null)"
  unfolding getExecutions_records [OF assms] execution_summary_written
  by (auto simp: determineExecutionStatus_def status_text_def error_message_def
        split: option.splits)

theorem C9_error_field_witness:
  "get_executions (demo_axios True [exec_plain\<lparr>finished := True, data_e := Some (failed_with [])\<rparr>,
       exec_plain\<lparr>data_e := Some (failed_with ''boom'')\<rparr>])
     ''/executions'' ''7'' (validLimit None) 0 =
     (Inr [exec_plain\<lparr>finished := True, data_e := Some (failed_with [])\<rparr>,
           exec_plain\<lparr>data_e := Some (failed_with ''boom'')\<rparr>], 1) \<and>
   map (\<lambda>r. lookup r ''error'')
     (returned_records (fst (getExecutions demo_stringify
        (demo_axios True [exec_plain\<lparr>finished := True, data_e := Some (failed_with [])\<rparr>,
           exec_plain\<lparr>data_e := Some (failed_with ''boom'')\<rparr>]) ''7'' None (0, [])))
        ''executions'') = [Some Null, Some (Str ''boom'')] \<and>
   lookup (returned_records (fst (getExecutions demo_stringify
        (demo_axios True [exec_plain\<lparr>finished := True, data_e := Some (failed_with [])\<rparr>,
           exec_plain\<lparr>data_e := Some (failed_with ''boom'')\<rparr>]) ''7'' None (0, [])))
        ''executions'' ! 0) ''status'' = Some (Str ''error'')"
proof -
  let ?es = "[exec_plain\<lparr>finished := True, data_e := Some (failed_with [])\<rparr>,
              exec_plain\<lparr>data_e := Some (failed_with ''boom'')\<rparr>]"
  have up: "get_executions (demo_axios True ?es) ''/executions'' ''7'' (validLimit None) 0 =
      (Inr ?es, 1)"
    by (simp add: demo_axios_def)
  have fin: "finished (?es ! 0) \<and> \<not> truthy_str (waitTill (?es ! 0)) \<and>
      (\<exists>er. result_error (?es ! 0) = Some er \<and> message er = [])"
    by (simp add: exec_plain_def failed_with_def result_error_def truthy_str_def opt_def)
  from C9_error_field [OF up, of demo_stringify "[]"] fin up show ?thesis
    by (simp add: error_message_def result_error_def exec_plain_def failed_with_def)
qed

text \<open>
  C9 as stated fails on an unfinished record: with an error object whose message is empty
  it is running, not "error" (the test on \<open>finished\<close> comes first).
\<close>

theorem C9_unfinished_counterexample:
  "result_error (exec_plain\<lparr>data_e := Some (failed_with [])\<rparr>) =
     Some \<lparr>message = [], stack = None\<rparr> \<and>
   map (\<lambda>r. (lookup r ''status'', lookup r ''error''))
     (returned_records (fst (getExecutions demo_stringify
        (demo_axios True [exec_plain\<lparr>data_e := Some (failed_with [])\<rparr>]) ''7'' None (0, [])))
        ''executions'') = [(Some (Str ''running''), Some Null)]"
  by (simp add: getExecutions_def request_def returned_records_def text_result_def
        demo_axios_def execution_summary_def determineExecutionStatus_def status_text_def
        error_message_def result_error_def exec_plain_def failed_with_def truthy_str_def
        opt_def)


text \<open>
  C10, as amended. Every execution record returned by \<open>get_executions\<close> has the fields
  id, workflowId, finished, mode, startedAt, status and error, and stoppedAt exactly when
  the upstream record has one (\<open>JSON.stringify\<close> leaves out a property whose value is
  \<open>undefined\<close>), in this order and no others; waitTill, retryOf and retrySuccessId never
  appear, also on a record that is waiting.
\<close>

theorem C10_record_fields:
  assumes "get_executions ax ''/executions'' wid (validLimit l) s = (Inr es, s')"
  shows "map keys (returned_records (fst (getExecutions J ax wid l (s, cs))) ''executions'') =
           map (\<lambda>e. [''id'', ''workflowId'', ''finished'', ''mode'', ''startedAt''] @
                     (if stoppedAt e = None then [] else [''stoppedAt'']) @
                     [''status'', ''error'']) es \<and>
         (\<forall>r \<in> set (returned_records (fst (getExecutions J ax wid l (s, cs))) ''executions'').
            ''waitTill'' \<notin> set (keys r) \<and> ''retryOf'' \<notin> set (keys r) \<and>
            ''retrySuccessId'' \<notin> set (keys r))"
  unfolding getExecutions_records [OF assms] execution_summary_written
  by (auto split: option.splits)

theorem C10_record_fields_witness:
  "get_executions (demo_axios True [exec_plain\<lparr>waitTill := Some ''t9'', stoppedAt := Some ''t1''\<rparr>])
     ''/executions'' ''7'' (validLimit None) 0 =
     (Inr [exec_plain\<lparr>waitTill := Some ''t9'', stoppedAt := Some ''t1''\<rparr>], 1) \<and>
   map keys (returned_records (fst (getExecutions demo_stringify
        (demo_axios True [exec_plain\<lparr>waitTill := Some ''t9'', stoppedAt := Some ''t1''\<rparr>])
        ''7'' None (0, []))) ''executions'') =
     [[''id'', ''workflowId'', ''finished'', ''mode'', ''startedAt'', ''stoppedAt'',
       ''status'', ''error'']] \<and>
   map (\<lambda>r. lookup r ''status'') (returned_records (fst (getExecutions demo_stringify
        (demo_axios True [exec_plain\<lparr>waitTill := Some ''t9'', stoppedAt := Some ''t1''\<rparr>])
        ''7'' None (0, []))) ''executions'') = [Some (Str ''waiting'')]"
proof -
  let ?es = "[exec_plain\<lparr>waitTill := Some ''t9'', stoppedAt := Some ''t1''\<rparr>]"
  have up: "get_executions (demo_axios True ?es) ''/executions'' ''7'' (validLimit None) 0 =
      (Inr ?es, 1)"
    by (simp add: demo_axios_def)
  have st: "map (\<lambda>r. lookup r ''status'') (returned_records (fst (getExecutions demo_stringify
      (demo_axios True ?es) ''7'' None (0, []))) ''executions'') = [Some (Str ''waiting'')]"
    unfolding getExecutions_records [OF up] execution_summary_written
    by (simp add: determineExecutionStatus_def status_text_def truthy_str_def opt_def
          exec_plain_def)
  from C10_record_fields [OF up, of demo_stringify "[]"] up st show ?thesis
    by (simp add: exec_plain_def)
qed

text \<open>
  C10 as stated fails on a record without \<open>stoppedAt\<close>: the written record has seven
  fields, \<open>stoppedAt\<close> is not among them.
\<close>

theorem C10_no_stoppedAt_counterexample:
  "map keys (returned_records (fst (getExecutions demo_stringify
      (demo_axios True [exec_plain]) ''7'' None (0, []))) ''executions'') =
     [[''id'', ''workflowId'', ''finished'', ''mode'', ''startedAt'', ''status'', ''error'']] \<and>
   map keys (returned_records (fst (getExecutions demo_stringify
      (demo_axios True [exec_plain]) ''7'' None (0, []))) ''executions'') \<noteq>
     [[''id'', ''workflowId'', ''finished'', ''mode'', ''startedAt'', ''stoppedAt'',
       ''status'', ''error'']]"
  by (simp add: getExecutions_def request_def returned_records_def text_result_def
        demo_axios_def execution_summary_def exec_plain_def opt_def error_message_def
        result_error_def truthy_str_def)

section \<open>Triggering a workflow\<close>

lemma triggerWorkflow_success:
  assumes "post_any ax (''/workflows/'' @ wid @ ''/activate'') (if truthy d then d else Obj []) s
             = (Inr a, s1)"
    and "get_workflow ax (''/workflows/'' @ wid) s1 = (Inr fetched, s2)"
    and "post_test ax (''/workflows/'' @ wid @ ''/test'') fetched d s2 = (Inr eid, s3)"
  shows "triggerWorkflow J ax wid d (s, cs) =
     (Inr \<lparr>content =
             Obj [(''success'', Bool True),
                  (''message'', Str ''Workflow triggered successfully''),
                  (''workflowId'', Str wid),
                  (''executionId'', Str eid),
                  (''workflowActive'', Bool (active fetched))],
           isError = None\<rparr>,
      (s3, cs @ [POST (''/workflows/'' @ wid @ ''/activate'') (if truthy d then d else Obj []),
                 GET (''/workflows/'' @ wid),
                 POST_test (''/workflows/'' @ wid @ ''/test'') fetched d]))"
  using assms
  by (simp add: triggerWorkflow_def request_def text_result_def Let_def)

text \<open>
  C3. For every \<open>trigger_workflow\<close> call with a non-empty workflow id in which the three
  upstream calls succeed, exactly three calls are issued, in the order activate,
  get-workflow, test; the test call is the same whatever the \<open>active\<close> flag of the fetched
  workflow; the returned executionId is the one the test call produced and workflowActive
  is the flag of the workflow the second call fetched.
\<close>

theorem C3_trigger_three_calls:
  assumes "wid \<noteq> []"
    and "post_any ax (''/workflows/'' @ wid @ ''/activate'')
           (if truthy (opt (\<lambda>v. v) d) then opt (\<lambda>v. v) d else Obj []) s = (Inr a, s1)"
    and "get_workflow ax (''/workflows/'' @ wid) s1 = (Inr fetched, s2)"
    and "post_test ax (''/workflows/'' @ wid @ ''/test'') fetched (opt (\<lambda>v. v) d) s2 = (Inr eid, s3)"
  shows "callTool J ax ''trigger_workflow''
           (Some \<lparr>workflow_id = Some wid, limit_arg = l, data_arg = d\<rparr>) (s, cs) =
     (Inr \<lparr>content =
             Obj [(''success'', Bool True),
                  (''message'', Str ''Workflow triggered successfully''),
                  (''workflowId'', Str wid),
                  (''executionId'', Str eid),
                  (''workflowActive'', Bool (active fetched))],
           isError = None\<rparr>,
      (s3, cs @ [POST (''/workflows/'' @ wid @ ''/activate'')
                   (if truthy (opt (\<lambda>v. v) d) then opt (\<lambda>v. v) d else Obj []),
                 GET (''/workflows/'' @ wid),
                 POST_test (''/workflows/'' @ wid @ ''/test'') fetched (opt (\<lambda>v. v) d)]))"
  using assms(1) triggerWorkflow_success [OF assms(2,3,4), of J cs]
  by (simp add: callTool_def dispatch_def catch_handler_def)

theorem C3_trigger_three_calls_witness:
  "callTool demo_stringify (demo_axios True []) ''trigger_workflow''
      (Some \<lparr>workflow_id = Some ''7'', limit_arg = None, data_arg = Some (Obj [(''x'', Num 1)])\<rparr>)
      (0, []) =
     (Inr \<lparr>content =
             Obj [(''success'', Bool True),
                  (''message'', Str ''Workflow triggered successfully''),
                  (''workflowId'', Str ''7''),
                  (''executionId'', Str ''exec-42''),
                  (''workflowActive'', Bool True)],
           isError = None\<rparr>,
      (3, [POST ''/workflows/7/activate'' (Obj [(''x'', Num 1)]),
           GET ''/workflows/7'',
           POST_test ''/workflows/7/test'' wf_orders (Obj [(''x'', Num 1)])])) \<and>
   callTool demo_stringify (demo_axios False []) ''trigger_workflow''
      (Some \<lparr>workflow_id = Some ''7'', limit_arg = None, data_arg = None\<rparr>) (0, []) =
     (Inr \<lparr>content =
             Obj [(''success'', Bool True),
                  (''message'', Str ''Workflow triggered successfully''),
                  (''workflowId'', Str ''7''),
                  (''executionId'', Str ''exec-42''),
                  (''workflowActive'', Bool False)],
           isError = None\<rparr>,
      (3, [POST ''/workflows/7/activate'' (Obj []),
           GET ''/workflows/7'',
           POST_test ''/workflows/7/test'' (wf_orders\<lparr>active := False\<rparr>) Undefined]))"
proof -
  have ne: "''7'' \<noteq> []" by simp
  have a1: "post_any (demo_axios True []) (''/workflows/'' @ ''7'' @ ''/activate'')
      (if truthy (opt (\<lambda>v. v) (Some (Obj [(''x'', Num 1)])))
       then opt (\<lambda>v. v) (Some (Obj [(''x'', Num 1)])) else Obj []) 0 = (Inr (Str ''activated''), 1)"
    by (simp add: demo_axios_def)
  have a2: "get_workflow (demo_axios True []) (''/workflows/'' @ ''7'') 1 =
      (Inr (wf_orders\<lparr>active := True\<rparr>), 2)"
    by (simp add: demo_axios_def)
  have a3: "post_test (demo_axios True []) (''/workflows/'' @ ''7'' @ ''/test'')
      (wf_orders\<lparr>active := True\<rparr>) (opt (\<lambda>v. v) (Some (Obj [(''x'', Num 1)]))) 2 =
      (Inr ''exec-42'', 3)"
    by (simp add: demo_axios_def)
  have b1: "post_any (demo_axios False []) (''/workflows/'' @ ''7'' @ ''/activate'')
      (if truthy (opt (\<lambda>v. v) None) then opt (\<lambda>v. v) None else Obj []) 0 =
      (Inr (Str ''activated''), 1)"
    by (simp add: demo_axios_def)
  have b2: "get_workflow (demo_axios False []) (''/workflows/'' @ ''7'') 1 =
      (Inr (wf_orders\<lparr>active := False\<rparr>), 2)"
    by (simp add: demo_axios_def)
  have b3: "post_test (demo_axios False []) (''/workflows/'' @ ''7'' @ ''/test'')
      (wf_orders\<lparr>active := False\<rparr>) (opt (\<lambda>v. v) None) 2 = (Inr ''exec-42'', 3)"
    by (simp add: demo_axios_def)
  from C3_trigger_three_calls [OF ne a1 a2 a3, of demo_stringify None "[]"]
    C3_trigger_three_calls [OF ne b1 b2 b3, of demo_stringify None "[]"]
  show ?thesis
    by (simp add: opt_def wf_orders_def)
qed

section \<open>Missing arguments, unknown tools and the \<open>catch\<close>\<close>

text \<open>
  C4. A call of \<open>get_workflow\<close>, \<open>get_executions\<close> or \<open>trigger_workflow\<close> whose arguments
  are missing, or have no \<open>workflow_id\<close>, or the empty string for it, fails with the
  \<open>InvalidParams\<close> error and leaves the world as it was: no upstream call is issued and
  the upstream state is untouched.
\<close>

theorem C4_missing_workflow_id:
  assumes "tool = ''get_workflow'' \<or> tool = ''get_executions'' \<or> tool = ''trigger_workflow''"
    and "Option.bind args workflow_id = None \<or> Option.bind args workflow_id = Some []"
  shows "callTool J ax tool args w = (Inl (McpError InvalidParams ''workflow_id is required''), w)"
  using assms
  by (auto simp: callTool_def dispatch_def catch_handler_def)

theorem C4_missing_workflow_id_witness:
  "callTool demo_stringify (demo_axios True []) ''get_workflow'' None (0, []) =
     (Inl (McpError InvalidParams ''workflow_id is required''), (0, [])) \<and>
   callTool demo_stringify (demo_axios True []) ''get_executions''
      (Some \<lparr>workflow_id = None, limit_arg = Some 5, data_arg = None\<rparr>) (0, []) =
     (Inl (McpError InvalidParams ''workflow_id is required''), (0, [])) \<and>
   callTool demo_stringify (demo_axios True []) ''trigger_workflow''
      (Some \<lparr>workflow_id = Some [], limit_arg = None, data_arg = Some (Obj [])\<rparr>) (0, []) =
     (Inl (McpError InvalidParams ''workflow_id is required''), (0, []))"
  using C4_missing_workflow_id [of "''get_workflow''" None demo_stringify "demo_axios True []" "(0, [])"]
    C4_missing_workflow_id [of "''get_executions''"
      "Some \<lparr>workflow_id = None, limit_arg = Some 5, data_arg = None\<rparr>"
      demo_stringify "demo_axios True []" "(0, [])"]
    C4_missing_workflow_id [of "''trigger_workflow''"
      "Some \<lparr>workflow_id = Some [], limit_arg = None, data_arg = Some (Obj [])\<rparr>"
      demo_stringify "demo_axios True []" "(0, [])"]
  by simp







section \<open>Translating upstream failures\<close>

lemma listWorkflows_failure:
  "get_workflows ax ''/workflows'' s = (Inl f, s') \<Longrightarrow>
   fst (listWorkflows J ax (s, cs)) = Inl (Mcp (handleAxiosError J f ''Failed to list workflows''))"
  by (simp add: listWorkflows_def request_def)

lemma getWorkflow_failure:
  "get_detail ax (''/workflows/'' @ wid) s = (Inl f, s') \<Longrightarrow>
   fst (getWorkflow J ax wid (s, cs)) =
     Inl (Mcp (handleAxiosError J f (''Failed to get workflow '' @ wid)))"
  by (simp add: getWorkflow_def request_def)

lemma getExecutions_failure:
  "get_executions ax ''/executions'' wid (validLimit l) s = (Inl f, s') \<Longrightarrow>
   fst (getExecutions J ax wid l (s, cs)) =
     Inl (Mcp (handleAxiosError J f (''Failed to get executions for workflow '' @ wid)))"
  by (simp add: getExecutions_def request_def)

lemma triggerWorkflow_failure_activate:
  "post_any ax (''/workflows/'' @ wid @ ''/activate'') (if truthy d then d else Obj []) s
     = (Inl f, s1) \<Longrightarrow>
   fst (triggerWorkflow J ax wid d (s, cs)) =
     Inl (Mcp (handleAxiosError J f (''Failed to trigger workflow '' @ wid)))"
  by (simp add: triggerWorkflow_def request_def Let_def)

lemma triggerWorkflow_failure_get:
  "post_any ax (''/workflows/'' @ wid @ ''/activate'') (if truthy d then d else Obj []) s
     = (Inr a, s1) \<Longrightarrow>
   get_workflow ax (''/workflows/'' @ wid) s1 = (Inl f, s2) \<Longrightarrow>
   fst (triggerWorkflow J ax wid d (s, cs)) =
     Inl (Mcp (handleAxiosError J f (''Failed to trigger workflow '' @ wid)))"
  by (simp add: triggerWorkflow_def request_def Let_def)

lemma triggerWorkflow_failure_test:
  "post_any ax (''/workflows/'' @ wid @ ''/activate'') (if truthy d then d else Obj []) s
     = (Inr a, s1) \<Longrightarrow>
   get_workflow ax (''/workflows/'' @ wid) s1 = (Inr fetched, s2) \<Longrightarrow>
   post_test ax (''/workflows/'' @ wid @ ''/test'') fetched d s2 = (Inl f, s3) \<Longrightarrow>
   fst (triggerWorkflow J ax wid d (s, cs)) =
     Inl (Mcp (handleAxiosError J f (''Failed to trigger workflow '' @ wid)))"
  by (simp add: triggerWorkflow_def request_def Let_def)

lemma handleAxiosError_response:
  "handleAxiosError J (AxiosError (Some (Response st body)) msg) ctx =
     (if st = 401 \<or> st = 403 then
        McpError InvalidRequest
          (''Authentication failed: '' @ (if truthy body then J body else msg) @
           ''. Please check your N8N_API_KEY.'')
      else if st = 404 then
        McpError InvalidRequest (''Resource not found: '' @ (if truthy body then J body else msg))
      else McpError InternalError (ctx @ '': '' @ (if truthy body then J body else msg)))"
  by (simp add: handleAxiosError_def)

lemma handleAxiosError_no_response:
  "handleAxiosError J (AxiosError None msg) ctx = McpError InternalError (ctx @ '': '' @ msg)"
  by (simp add: handleAxiosError_def)

text \<open>
  C5, as amended. A failed upstream call with a response of status 401 or 403 gives the
  \<open>InvalidRequest\<close> error "Authentication failed: ..." with the hint to check the API key,
  status 404 gives the \<open>InvalidRequest\<close> error "Resource not found: ...", and any other
  status, or a failure without a response, gives the \<open>InternalError\<close> error that starts
  with the context of the handler. The detail in the message is the text of the upstream
  body when the response has a truthy one, and the message of the transport error
  otherwise. Every upstream call of every handler is translated this way, with the context
  of its handler.
\<close>

theorem C5_error_translation:
  "handleAxiosError J (AxiosError (Some (Response st body)) msg) ctx =
     (if st = 401 \<or> st = 403 then
        McpError InvalidRequest
          (''Authentication failed: '' @ (if truthy body then J body else msg) @
           ''. Please check your N8N_API_KEY.'')
      else if st = 404 then
        McpError InvalidRequest (''Resource not found: '' @ (if truthy body then J body else msg))
      else McpError InternalError (ctx @ '': '' @ (if truthy body then J body else msg))) \<and>
   handleAxiosError J (AxiosError None msg) ctx = McpError InternalError (ctx @ '': '' @ msg) \<and>
   (get_workflows ax ''/workflows'' s = (Inl f, s') \<longrightarrow>
      fst (listWorkflows J ax (s, cs)) =
        Inl (Mcp (handleAxiosError J f ''Failed to list workflows''))) \<and>
   (get_detail ax (''/workflows/'' @ wid) s = (Inl f, s') \<longrightarrow>
      fst (getWorkflow J ax wid (s, cs)) =
        Inl (Mcp (handleAxiosError J f (''Failed to get workflow '' @ wid)))) \<and>
   (get_executions ax ''/executions'' wid (validLimit l) s = (Inl f, s') \<longrightarrow>
      fst (getExecutions J ax wid l (s, cs)) =
        Inl (Mcp (handleAxiosError J f (''Failed to get executions for workflow '' @ wid)))) \<and>
   (post_any ax (''/workflows/'' @ wid @ ''/activate'') (if truthy d then d else Obj []) s
        = (Inl f, s') \<longrightarrow>
      fst (triggerWorkflow J ax wid d (s, cs)) =
        Inl (Mcp (handleAxiosError J f (''Failed to trigger workflow '' @ wid)))) \<and>
   (post_any ax (''/workflows/'' @ wid @ ''/activate'') (if truthy d then d else Obj []) s
        = (Inr a, s1) \<and>
    get_workflow ax (''/workflows/'' @ wid) s1 = (Inl f, s2) \<longrightarrow>
      fst (triggerWorkflow J ax wid d (s, cs)) =
        Inl (Mcp (handleAxiosError J f (''Failed to trigger workflow '' @ wid)))) \<and>
   (post_any ax (''/workflows/'' @ wid @ ''/activate'') (if truthy d then d else Obj []) s
        = (Inr a, s1) \<and>
    get_workflow ax (''/workflows/'' @ wid) s1 = (Inr fetched, s2) \<and>
    post_test ax (''/workflows/'' @ wid @ ''/test'') fetched d s2 = (Inl f, s3) \<longrightarrow>
      fst (triggerWorkflow J ax wid d (s, cs)) =
        Inl (Mcp (handleAxiosError J f (''Failed to trigger workflow '' @ wid))))"
  using handleAxiosError_response [of J st body msg ctx]
    handleAxiosError_no_response [of J msg ctx]
    listWorkflows_failure [of ax s f s' J cs]
    getWorkflow_failure [of ax wid s f s' J cs]
    getExecutions_failure [of ax wid l s f s' J cs]
    triggerWorkflow_failure_activate [of ax wid d s f s' J cs]
    triggerWorkflow_failure_get [of ax wid d s a s1 f s2 J cs]
    triggerWorkflow_failure_test [of ax wid d s a s1 fetched s2 f s3 J cs]
  by blast

theorem C5_error_translation_witness:
  "handleAxiosError demo_stringify (AxiosError (Some (Response 403 (Obj []))) ''denied'') ''ctx'' =
     McpError InvalidRequest ''Authentication failed: {...}. Please check your N8N_API_KEY.'' \<and>
   handleAxiosError demo_stringify (AxiosError (Some (Response 500 (Str []))) ''failed'') ''ctx'' =
     McpError InternalError ''ctx: failed'' \<and>
   handleAxiosError demo_stringify (AxiosError None ''timeout'') ''ctx'' =
     McpError InternalError ''ctx: timeout'' \<and>
   fst (listWorkflows demo_stringify
      (failing_axios (AxiosError (Some (Response 404 (Obj []))) ''not found'')) (0, [])) =
     Inl (Mcp (McpError InvalidRequest ''Resource not found: {...}'')) \<and>
   fst (getWorkflow demo_stringify
      (failing_axios (AxiosError (Some (Response 404 (Obj []))) ''not found'')) ''7'' (0, [])) =
     Inl (Mcp (McpError InvalidRequest ''Resource not found: {...}'')) \<and>
   fst (getExecutions demo_stringify
      (failing_axios (AxiosError (Some (Response 404 (Obj []))) ''not found'')) ''7'' None (0, [])) =
     Inl (Mcp (McpError InvalidRequest ''Resource not found: {...}'')) \<and>
   fst (triggerWorkflow demo_stringify
      (failing_axios (AxiosError (Some (Response 404 (Obj []))) ''not found'')) ''7'' Undefined
      (0, [])) =
     Inl (Mcp (McpError InvalidRequest ''Resource not found: {...}'')) \<and>
   fst (triggerWorkflow demo_stringify
      ((demo_axios True [])\<lparr>get_workflow := (\<lambda>url s. (Inl (AxiosError None ''timeout''), Suc s))\<rparr>)
      ''7'' Undefined (0, [])) =
     Inl (Mcp (McpError InternalError ''Failed to trigger workflow 7: timeout'')) \<and>
   fst (triggerWorkflow demo_stringify
      ((demo_axios True [])\<lparr>post_test := (\<lambda>url w rd s. (Inl (AxiosError None ''timeout''), Suc s))\<rparr>)
      ''7'' Undefined (0, [])) =
     Inl (Mcp (McpError InternalError ''Failed to trigger workflow 7: timeout''))"
proof -
  let ?f = "AxiosError (Some (Response 404 (Obj []))) ''not found''"
  let ?t = "AxiosError None ''timeout''"
  let ?g = "(demo_axios True [])\<lparr>get_workflow := (\<lambda>url s. (Inl ?t, Suc s))\<rparr>"
  let ?p = "(demo_axios True [])\<lparr>post_test := (\<lambda>url w rd s. (Inl ?t, Suc s))\<rparr>"
  note status = C5_error_translation [THEN conjunct1]
  note rest = C5_error_translation [THEN conjunct2]
  note handlers = rest [THEN conjunct2]
  have t1: "handleAxiosError demo_stringify (AxiosError (Some (Response 403 (Obj []))) ''denied'')
      ''ctx'' =
     McpError InvalidRequest ''Authentication failed: {...}. Please check your N8N_API_KEY.''"
    using status [of demo_stringify 403 "Obj []" "''denied''" "''ctx''"] by simp
  have t2: "handleAxiosError demo_stringify (AxiosError (Some (Response 500 (Str []))) ''failed'')
      ''ctx'' = McpError InternalError ''ctx: failed''"
    using status [of demo_stringify 500 "Str []" "''failed''" "''ctx''"] by simp
  have t3: "handleAxiosError demo_stringify ?t c = McpError InternalError (c @ '': timeout'')"
    for c
    using rest [THEN conjunct1, of demo_stringify "''timeout''" c] by simp
  have nf: "handleAxiosError demo_stringify ?f c = McpError InvalidRequest
      ''Resource not found: {...}''" for c
    using status [of demo_stringify 404 "Obj []" "''not found''" c] by simp
  have h1: "fst (listWorkflows demo_stringify (failing_axios ?f) (0, [])) =
        Inl (Mcp (McpError InvalidRequest ''Resource not found: {...}''))"
    using handlers [THEN conjunct1, of "failing_axios ?f" 0 ?f 1 demo_stringify "[]"]
    by (simp add: failing_axios_def nf)
  have h2: "fst (getWorkflow demo_stringify (failing_axios ?f) ''7'' (0, [])) =
        Inl (Mcp (McpError InvalidRequest ''Resource not found: {...}''))"
    using handlers [THEN conjunct2, THEN conjunct1,
        of "failing_axios ?f" "''7''" 0 ?f 1 demo_stringify "[]"]
    by (simp add: failing_axios_def nf)
  have h3: "fst (getExecutions demo_stringify (failing_axios ?f) ''7'' None (0, [])) =
        Inl (Mcp (McpError InvalidRequest ''Resource not found: {...}''))"
    using handlers [THEN conjunct2, THEN conjunct2, THEN conjunct1,
        of "failing_axios ?f" "''7''" None 0 ?f 1 demo_stringify "[]"]
    by (simp add: failing_axios_def nf)
  note trigger = handlers [THEN conjunct2, THEN conjunct2, THEN conjunct2]
  have h4: "fst (triggerWorkflow demo_stringify (failing_axios ?f) ''7'' Undefined (0, [])) =
        Inl (Mcp (McpError InvalidRequest ''Resource not found: {...}''))"
    using trigger [THEN conjunct1,
        of "failing_axios ?f" "''7''" Undefined 0 ?f 1 demo_stringify "[]"]
    by (simp add: failing_axios_def nf)
  have g: "fst (triggerWorkflow demo_stringify ?g ''7'' Undefined (0, [])) =
     Inl (Mcp (McpError InternalError ''Failed to trigger workflow 7: timeout''))"
    using trigger [THEN conjunct2, THEN conjunct1,
        of ?g "''7''" Undefined 0 "Str ''activated''" 1 ?t 2 demo_stringify "[]"]
    by (simp add: demo_axios_def t3)
  have p: "fst (triggerWorkflow demo_stringify ?p ''7'' Undefined (0, [])) =
     Inl (Mcp (McpError InternalError ''Failed to trigger workflow 7: timeout''))"
    using trigger [THEN conjunct2, THEN conjunct2,
        of ?p "''7''" Undefined 0 "Str ''activated''" 1 "wf_orders\<lparr>active := True\<rparr>" 2 ?t 3
           demo_stringify "[]"]
    by (simp add: demo_axios_def t3)
  from t1 t2 t3 [of "''ctx''"] h1 h2 h3 h4 g p show ?thesis by simp
qed

text \<open>
  C5 as stated fails on a 401 response whose body is falsy (here the JSON value
  \<open>false\<close>): the message carries the text of the transport error and nothing of the body.
\<close>

theorem C5_falsy_body_counterexample:
  "fst (callTool demo_stringify
      (failing_axios (AxiosError (Some (Response 401 (Bool False)))
         ''Request failed with status code 401''))
      ''list_workflows'' None (0, [])) =
     Inl (McpError InvalidRequest
       ''Authentication failed: Request failed with status code 401. Please check your N8N_API_KEY.'') \<and>
   demo_stringify (Bool False) = ''false'' \<and>
   \<not> sublist ''false''
       ''Authentication failed: Request failed with status code 401. Please check your N8N_API_KEY.''"
proof -
  have "\<not> sublist ''false''
       ''Authentication failed: Request failed with status code 401. Please check your N8N_API_KEY.''"
    by (simp add: sublist_Cons_right)
  then show ?thesis
    by (simp add: callTool_def dispatch_def listWorkflows_def request_def failing_axios_def
          handleAxiosError_def catch_handler_def)
qed

section \<open>Listing and fetching workflows\<close>

lemma workflow_summary_written:
  "stringified (workflow_summary w) =
     Obj ([(''id'', Str (id_w w)), (''name'', Str (name w)), (''active'', Bool (active w))] @
          (case createdAt w of None \<Rightarrow> [] | Some t \<Rightarrow> [(''createdAt'', Str t)]) @
          (case updatedAt w of None \<Rightarrow> [] | Some t \<Rightarrow> [(''updatedAt'', Str t)]) @
          (case tags w of None \<Rightarrow> [] | Some ts \<Rightarrow> [(''tags'', stringified (Arr ts))]))"
  by (cases "createdAt w"; cases "updatedAt w"; cases "tags w")
     (simp_all add: workflow_summary_def opt_def)

lemma listWorkflows_result:
  "fst (listWorkflows J ax (s, cs)) =
     (case fst (get_workflows ax ''/workflows'' s) of
        Inl f \<Rightarrow> Inl (Mcp (handleAxiosError J f ''Failed to list workflows''))
      | Inr ws \<Rightarrow>
          Inr \<lparr>content =
                 Obj [(''success'', Bool True), (''count'', Num (int (length ws))),
                      (''workflows'', Arr (map (\<lambda>w. stringified (workflow_summary w)) ws))],
               isError = None\<rparr>)"
proof -
  have "workflow_summary w \<noteq> Undefined" for w :: "'b N8nWorkflow_scheme"
    by (simp add: workflow_summary_def)
  then have "stringified (Arr (map workflow_summary ws)) =
      Arr (map (\<lambda>w. stringified (workflow_summary w)) ws)" for ws :: "'b N8nWorkflow_scheme list"
    by simp
  then show ?thesis
    by (cases "get_workflows ax ''/workflows'' s")
       (auto simp: listWorkflows_def request_def text_result_def split: sum.splits)
qed

text \<open>
  C7, as amended. When the upstream answers the list call with the workflows \<open>ws\<close>,
  \<open>list_workflows\<close> returns \<open>{success: true, count, workflows}\<close> where \<open>workflows\<close> has one
  record for each workflow of \<open>ws\<close>, in the order of \<open>ws\<close>, and \<open>count\<close> is the length of
  that sequence. Each record has the fields id, name and active, and each of createdAt,
  updatedAt and tags exactly when the upstream workflow has it (\<open>JSON.stringify\<close> leaves
  out a property whose value is \<open>undefined\<close>), in this order and no other field; the
  values are those of the workflow, the tags being written as the upstream sent them.
\<close>

theorem C7_list_workflows:
  assumes "get_workflows ax ''/workflows'' s = (Inr ws, s')"
  shows "fst (listWorkflows J ax (s, cs)) =
           Inr \<lparr>content =
                  Obj [(''success'', Bool True),
                       (''count'', Num (int (length ws))),
                       (''workflows'',
                        Arr (map (\<lambda>w. Obj
                          ([(''id'', Str (id_w w)), (''name'', Str (name w)),
                            (''active'', Bool (active w))] @
                           (case createdAt w of None \<Rightarrow> [] | Some t \<Rightarrow> [(''createdAt'', Str t)]) @
                           (case updatedAt w of None \<Rightarrow> [] | Some t \<Rightarrow> [(''updatedAt'', Str t)]) @
                           (case tags w of None \<Rightarrow> []
                            | Some ts \<Rightarrow> [(''tags'', stringified (Arr ts))]))) ws))],
                isError = None\<rparr> \<and>
         length (returned_records (fst (listWorkflows J ax (s, cs))) ''workflows'') = length ws \<and>
         map keys (returned_records (fst (listWorkflows J ax (s, cs))) ''workflows'') =
           map (\<lambda>w. [''id'', ''name'', ''active''] @
                     (if createdAt w = None then [] else [''createdAt'']) @
                     (if updatedAt w = None then [] else [''updatedAt'']) @
                     (if tags w = None then [] else [''tags''])) ws"
  using assms
  by (auto simp: listWorkflows_result workflow_summary_written returned_records_def
        split: option.splits)

theorem C7_list_workflows_witness:
  "get_workflows (demo_axios True []) ''/workflows'' 0 = (Inr [wf_orders, wf_draft], 1) \<and>
   fst (listWorkflows demo_stringify (demo_axios True []) (0, [])) =
     Inr \<lparr>content =
            Obj [(''success'', Bool True),
                 (''count'', Num 2),
                 (''workflows'',
                  Arr [Obj [(''id'', Str ''1''), (''name'', Str ''Orders''), (''active'', Bool True),
                            (''createdAt'', Str ''2024-01-01T00:00:00.000Z''),
                            (''tags'',
                             Arr [Obj [(''name'', Str ''prod''), (''id'', Str ''t1''),
                                       (''createdAt'', Str ''2023-12-31T00:00:00.000Z'')]])],
                       Obj [(''id'', Str ''2''), (''name'', Str ''Draft''),
                            (''active'', Bool False)]])],
          isError = None\<rparr>"
proof -
  have up: "get_workflows (demo_axios True []) ''/workflows'' 0 = (Inr [wf_orders, wf_draft], 1)"
    by (simp add: demo_axios_def)
  from C7_list_workflows [OF up, of demo_stringify "[]"] up show ?thesis
    by (simp add: wf_orders_def wf_draft_def)
qed

text \<open>
  C7 as stated fails on a workflow without \<open>createdAt\<close>, \<open>updatedAt\<close> or \<open>tags\<close>: its
  record has the three fields id, name and active, not the six of the claim; and the
  record of a workflow without \<open>updatedAt\<close> has five.
\<close>

theorem C7_absent_fields_counterexample:
  "map keys (returned_records (fst (callTool demo_stringify (demo_axios True [])
      ''list_workflows'' None (0, []))) ''workflows'') =
     [[''id'', ''name'', ''active'', ''createdAt'', ''tags''], [''id'', ''name'', ''active'']] \<and>
   map keys (returned_records (fst (callTool demo_stringify (demo_axios True [])
      ''list_workflows'' None (0, []))) ''workflows'') \<noteq>
     [[''id'', ''name'', ''active'', ''createdAt'', ''updatedAt'', ''tags''],
      [''id'', ''name'', ''active'', ''createdAt'', ''updatedAt'', ''tags'']]"
  by (simp add: callTool_def dispatch_def catch_handler_def listWorkflows_def request_def
        returned_records_def text_result_def demo_axios_def workflow_summary_def
        wf_orders_def wf_draft_def opt_def)

lemma getWorkflow_result:
  "fst (getWorkflow J ax wid (s, cs)) =
     (case fst (get_detail ax (''/workflows/'' @ wid) s) of
        Inl f \<Rightarrow> Inl (Mcp (handleAxiosError J f (''Failed to get workflow '' @ wid)))
      | Inr workflow \<Rightarrow>
          Inr (text_result
             (Obj [(''success'', Bool True),
                   (''workflow'',
                    Obj [(''id'', Str (id_w workflow)),
                         (''name'', Str (name workflow)),
                         (''active'', Bool (active workflow)),
                         (''nodes'', Arr (nodes workflow)),
                         (''connections'', connections workflow),
                         (''settings'', opt (\<lambda>v. v) (settings workflow)),
                         (''staticData'', opt (\<lambda>v. v) (staticData workflow)),
                         (''tags'', opt Arr (tags workflow)),
                         (''createdAt'', opt Str (createdAt workflow)),
                         (''updatedAt'', opt Str (updatedAt workflow))])])))"
  by (cases "get_detail ax (''/workflows/'' @ wid) s")
     (auto simp: getWorkflow_def request_def split: sum.splits)

text \<open>
  C8. The result of \<open>list_workflows\<close>, and of \<open>get_workflow\<close> for a given workflow id, is
  a function of the upstream response alone: two invocations, in any two states of any two
  upstream platforms and after any calls, that receive the same response (the same data
  or the same failure) give the same result.
\<close>

theorem C8_same_response_same_result:
  "(fst (get_workflows ax1 ''/workflows'' s1) = fst (get_workflows ax2 ''/workflows'' s2) \<longrightarrow>
      fst (callTool J ax1 ''list_workflows'' args1 (s1, cs1)) =
      fst (callTool J ax2 ''list_workflows'' args2 (s2, cs2))) \<and>
   (Option.bind args1 workflow_id = Some wid \<and> Option.bind args2 workflow_id = Some wid \<and>
    fst (get_detail ax1 (''/workflows/'' @ wid) s1) = fst (get_detail ax2 (''/workflows/'' @ wid) s2)
    \<longrightarrow>
      fst (callTool J ax1 ''get_workflow'' args1 (s1, cs1)) =
      fst (callTool J ax2 ''get_workflow'' args2 (s2, cs2)))"
proof -
  have call: "fst (callTool J ax tool args w) = catch_handler (fst (dispatch J ax tool args w))"
    for ax :: "('s, 'x) axios" and tool args w
    by (simp add: callTool_def split_beta)
  have list: "fst (dispatch J ax ''list_workflows'' args (s, cs)) = fst (listWorkflows J ax (s, cs))"
    for ax :: "('s, 'x) axios" and args s cs
    by (simp add: dispatch_def)
  have get: "Option.bind args workflow_id = Some wid \<Longrightarrow>
      fst (dispatch J ax ''get_workflow'' args (s, cs)) =
        (if wid = [] then Inl (Mcp (McpError InvalidParams ''workflow_id is required''))
         else fst (getWorkflow J ax wid (s, cs)))"
    for ax :: "('s, 'x) axios" and args s cs
    by (simp add: dispatch_def)
  show ?thesis
    by (simp add: call list get listWorkflows_result getWorkflow_result)
qed


theorem C8_same_response_same_result_witness:
  "fst (get_workflows (demo_axios True []) ''/workflows'' 0) =
     fst (get_workflows (demo_axios False [exec_plain]) ''/workflows'' 5) \<and>
   fst (callTool demo_stringify (demo_axios True []) ''list_workflows'' None (0, [])) =
     fst (callTool demo_stringify (demo_axios False [exec_plain]) ''list_workflows''
            (args_of ''9'' None) (5, [GET ''/workflows/9''])) \<and>
   fst (get_detail (demo_axios True []) (''/workflows/'' @ ''7'') 0) =
     fst (get_detail (demo_axios False [exec_plain]) (''/workflows/'' @ ''7'') 5) \<and>
   fst (callTool demo_stringify (demo_axios True []) ''get_workflow'' (args_of ''7'' None) (0, [])) =
     fst (callTool demo_stringify (demo_axios False [exec_plain]) ''get_workflow''
            (args_of ''7'' (Some 3)) (5, [GET ''/workflows/9'']))"
proof -
  have r1: "fst (get_workflows (demo_axios True []) ''/workflows'' 0) =
      fst (get_workflows (demo_axios False [exec_plain]) ''/workflows'' 5)"
    by (simp add: demo_axios_def)
  have r2: "fst (get_detail (demo_axios True []) (''/workflows/'' @ ''7'') 0) =
      fst (get_detail (demo_axios False [exec_plain]) (''/workflows/'' @ ''7'') 5)"
    by (simp add: demo_axios_def)
  have a: "Option.bind (args_of ''7'' None) workflow_id = Some ''7'' \<and>
      Option.bind (args_of ''7'' (Some 3)) workflow_id = Some ''7''"
    by (simp add: args_of_def)
  from C8_same_response_same_result [THEN conjunct1, of "demo_axios True []" 0
      "demo_axios False [exec_plain]" 5 demo_stringify None "[]" "args_of ''9'' None"
      "[GET ''/workflows/9'']"] r1
  have l: "fst (callTool demo_stringify (demo_axios True []) ''list_workflows'' None (0, [])) =
     fst (callTool demo_stringify (demo_axios False [exec_plain]) ''list_workflows''
            (args_of ''9'' None) (5, [GET ''/workflows/9'']))"
    by simp
  from C8_same_response_same_result [THEN conjunct2, of "args_of ''7'' None" "''7''"
      "args_of ''7'' (Some 3)" "demo_axios True []" 0 "demo_axios False [exec_plain]" 5
      demo_stringify "[]" "[GET ''/workflows/9'']"] r2 a
  have g: "fst (callTool demo_stringify (demo_axios True []) ''get_workflow''
        (args_of ''7'' None) (0, [])) =
     fst (callTool demo_stringify (demo_axios False [exec_plain]) ''get_workflow''
            (args_of ''7'' (Some 3)) (5, [GET ''/workflows/9'']))"
    by simp
  from r1 r2 l g show ?thesis by simp
qed

end
